theory Spec2Isabelle
  imports Main "HOL-Library.Word"
begin

section \<open>The escrow contracts of \<open>src/escrowMu.sol\<close>\<close>

text \<open>
  The file holds two Solidity contracts (pragma \<open>^0.8.0\<close>): \<open>EscrowFactory\<close>, which keeps the
  global admin and fee and deploys escrows, and \<open>Escrow\<close>, the state machine of one agreement.

  Modelling decisions:
  \<^item> \<open>address\<close> is a 160-bit word and \<open>uint256\<close> a 256-bit word. Solidity 0.8 checks
    \<open>+\<close>, \<open>-\<close> and \<open>*\<close>: an overflow or underflow reverts with a panic. The checked
    operations below return \<open>Inl Panic\<close> there.
  \<^item> A \<open>require\<close> that fails reverts with its message: \<open>Inl (Revert msg)\<close>.
  \<^item> Ether is a ledger from addresses to integers. \<open>payable(x).transfer(v)\<close> moves \<open>v\<close>
    from the contract to \<open>x\<close> and reverts when the contract holds less than \<open>v\<close> or
    when the recipient does not accept the payment. \<open>Escrow\<close> declares neither
    \<open>receive\<close> nor a payable \<open>fallback\<close>, so a transfer to the escrow itself is rejected.
    Whether another address accepts a payment belongs to the environment of the call
    (\<open>receives\<close>). \<open>transfer\<close> forwards 2300 gas only, so the recipient cannot call back.
  \<^item> A function body is a function from the world to \<open>error + world\<close>. A revert undoes
    every effect of the transaction; \<open>exec\<close> keeps the old world then.
  \<^item> Events carry no state and are left out.
\<close>

subsection \<open>Values, errors and checked arithmetic\<close>

type_synonym address = "160 word"
type_synonym uint256 = "256 word"
type_synonym ledger = "address \<Rightarrow> int"

datatype error = Revert string | Panic | TransferFailed

definition checked_add :: "uint256 \<Rightarrow> uint256 \<Rightarrow> error + uint256" where
  "checked_add a b = (if unat a + unat b < 2 ^ 256 then Inr (a + b) else Inl Panic)"

definition checked_sub :: "uint256 \<Rightarrow> uint256 \<Rightarrow> error + uint256" where
  "checked_sub a b = (if b \<le> a then Inr (a - b) else Inl Panic)"

definition checked_mul :: "uint256 \<Rightarrow> uint256 \<Rightarrow> error + uint256" where
  "checked_mul a b = (if unat a * unat b < 2 ^ 256 then Inr (a * b) else Inl Panic)"

definition move :: "ledger \<Rightarrow> address \<Rightarrow> address \<Rightarrow> int \<Rightarrow> ledger" where
  "move bal from to v =
     (let bal1 = bal(from := bal from - v) in bal1(to := bal1 to + v))"

definition require :: "bool \<Rightarrow> string \<Rightarrow> (error + 'a) \<Rightarrow> error + 'a" where
  "require c msg k = (if c then k else Inl (Revert msg))"

text \<open>What a call sees of its transaction: \<open>msg.sender\<close>, \<open>block.timestamp\<close>, and the
  addresses that accept a plain payment at this moment.\<close>

record env =
  sender :: address
  timestamp :: uint256
  receives :: "address set"

subsection \<open>Contract \<open>EscrowFactory\<close>\<close>

text \<open>The factory's field \<open>admin\<close> is named \<open>factoryAdmin\<close> here: \<open>Escrow\<close> has a field
  \<open>admin\<close> too, and record fields share one name space.\<close>

record EscrowFactory =
  factoryAdmin :: address
  adminFeePercentage :: uint256
  allEscrows :: "address list"

definition EscrowFactory_constructor :: "env \<Rightarrow> uint256 \<Rightarrow> EscrowFactory" where
  "EscrowFactory_constructor ev feePercentage =
     \<lparr>factoryAdmin = sender ev, adminFeePercentage = feePercentage, allEscrows = []\<rparr>"

definition changeAdmin :: "env \<Rightarrow> address \<Rightarrow> EscrowFactory \<Rightarrow> error + EscrowFactory" where
  "changeAdmin ev newAdmin f =
     require (sender ev = factoryAdmin f) ''Only admin''
       (Inr (f\<lparr>factoryAdmin := newAdmin\<rparr>))"

definition setFeePercentage :: "env \<Rightarrow> uint256 \<Rightarrow> EscrowFactory \<Rightarrow> error + EscrowFactory" where
  "setFeePercentage ev newPercentage f =
     require (sender ev = factoryAdmin f) ''Only admin''
       (require (newPercentage \<le> 500) ''Max 5% fee''
          (Inr (f\<lparr>adminFeePercentage := newPercentage\<rparr>)))"

subsection \<open>Contract \<open>Escrow\<close>: storage and constructor\<close>

datatype State = AWAITING_DELIVERY | COMPLETE | REFUNDED | DISPUTED

record Escrow =
  admin :: address
  buyer :: address
  seller :: address
  expiryTime :: uint256
  adminFee :: uint256
  amount :: uint256
  currentState :: State
  requireMultiSig :: bool
  buyerApproved :: bool
  sellerApproved :: bool

text \<open>The constructor receives \<open>msg.value\<close> as \<open>msg_value\<close>. Fields it does not assign keep
  Solidity's defaults: the first enum value and \<open>false\<close>. \<open>1 days\<close> is 86400 seconds.\<close>

definition Escrow_constructor ::
  "env \<Rightarrow> uint256 \<Rightarrow> address \<Rightarrow> address \<Rightarrow> address \<Rightarrow> uint256 \<Rightarrow> bool \<Rightarrow> uint256 \<Rightarrow> error + Escrow"
where
  "Escrow_constructor ev msg_value buyer' seller' admin' expiryDays multiSig feePercentage =
     (case checked_mul msg_value feePercentage of
        Inl x \<Rightarrow> Inl x
      | Inr product \<Rightarrow>
          (case checked_mul expiryDays 86400 of
             Inl x \<Rightarrow> Inl x
           | Inr duration \<Rightarrow>
               (case checked_add (timestamp ev) duration of
                  Inl x \<Rightarrow> Inl x
                | Inr expiry \<Rightarrow>
                    Inr \<lparr>admin = admin', buyer = buyer', seller = seller',
                         expiryTime = expiry, adminFee = product div 10000,
                         amount = msg_value, currentState = AWAITING_DELIVERY,
                         requireMultiSig = multiSig, buyerApproved = False,
                         sellerApproved = False\<rparr>)))"

text \<open>The world of one escrow: its address, its storage, and the ether ledger.\<close>

record world =
  thisAddr :: address
  escrow :: Escrow
  balance :: ledger

text \<open>\<open>createEscrow\<close> is payable: the call moves \<open>msg.value\<close> from the caller to the factory,
  and \<open>new Escrow{value: msg.value}\<close> moves it on to the address \<open>newAddr\<close> at which the
  escrow is deployed. The transaction is impossible when the caller holds less than
  \<open>msg.value\<close>.\<close>

definition createEscrow ::
  "env \<Rightarrow> uint256 \<Rightarrow> address \<Rightarrow> address \<Rightarrow> uint256 \<Rightarrow> bool \<Rightarrow> EscrowFactory \<times> ledger
     \<Rightarrow> error + (EscrowFactory \<times> world)"
where
  "createEscrow ev msg_value newAddr seller' expiryDays multiSig fl =
     (let f = fst fl; bal = snd fl in
      if bal (sender ev) < uint msg_value then Inl TransferFailed
      else
        require (msg_value > 0) ''Must send ETH to create escrow''
          (case Escrow_constructor ev msg_value (sender ev) seller' (factoryAdmin f)
                  expiryDays multiSig (adminFeePercentage f) of
             Inl x \<Rightarrow> Inl x
           | Inr e \<Rightarrow>
               Inr (f\<lparr>allEscrows := allEscrows f @ [newAddr]\<rparr>,
                    \<lparr>thisAddr = newAddr, escrow = e,
                     balance = move bal (sender ev) newAddr (uint msg_value)\<rparr>)))"

subsection \<open>Contract \<open>Escrow\<close>: modifiers, payments and functions\<close>

definition onlyParties :: "env \<Rightarrow> world \<Rightarrow> (error + 'a) \<Rightarrow> error + 'a" where
  "onlyParties ev w k =
     require (sender ev = buyer (escrow w) \<or> sender ev = seller (escrow w)) ''Not a party'' k"

definition onlyAdmin :: "env \<Rightarrow> world \<Rightarrow> (error + 'a) \<Rightarrow> error + 'a" where
  "onlyAdmin ev w k = require (sender ev = admin (escrow w)) ''Only admin'' k"

definition notExpired :: "env \<Rightarrow> world \<Rightarrow> (error + 'a) \<Rightarrow> error + 'a" where
  "notExpired ev w k = require (timestamp ev < expiryTime (escrow w)) ''Escrow expired'' k"

text \<open>\<open>payable(to).transfer(v)\<close>, executed by the escrow.\<close>

definition transfer :: "env \<Rightarrow> address \<Rightarrow> int \<Rightarrow> world \<Rightarrow> error + world" where
  "transfer ev to v w =
     (if balance w (thisAddr w) < v \<or> to = thisAddr w \<or> to \<notin> receives ev
      then Inl TransferFailed
      else Inr (w\<lparr>balance := move (balance w) (thisAddr w) to v\<rparr>))"

definition setState :: "State \<Rightarrow> world \<Rightarrow> world" where
  "setState s w = w\<lparr>escrow := (escrow w)\<lparr>currentState := s\<rparr>\<rparr>"

definition releaseFunds :: "env \<Rightarrow> world \<Rightarrow> error + world" where
  "releaseFunds ev w =
     (let w1 = setState COMPLETE w in
      case checked_sub (amount (escrow w1)) (adminFee (escrow w1)) of
        Inl x \<Rightarrow> Inl x
      | Inr sellerAmount \<Rightarrow>
          (case transfer ev (seller (escrow w1)) (uint sellerAmount) w1 of
             Inl x \<Rightarrow> Inl x
           | Inr w2 \<Rightarrow> transfer ev (admin (escrow w2)) (uint (adminFee (escrow w2))) w2))"

definition confirmDelivery :: "env \<Rightarrow> world \<Rightarrow> error + world" where
  "confirmDelivery ev w =
     onlyParties ev w (notExpired ev w
       (require (sender ev = buyer (escrow w)) ''Only buyer can confirm''
         (require (currentState (escrow w) = AWAITING_DELIVERY) ''Invalid state''
           (if requireMultiSig (escrow w) then
              (let w1 = w\<lparr>escrow := (escrow w)\<lparr>buyerApproved := True\<rparr>\<rparr> in
               if sellerApproved (escrow w1) then releaseFunds ev w1 else Inr w1)
            else releaseFunds ev w))))"

definition confirmPayment :: "env \<Rightarrow> world \<Rightarrow> error + world" where
  "confirmPayment ev w =
     onlyParties ev w (notExpired ev w
       (require (sender ev = seller (escrow w)) ''Only seller can confirm''
         (require (currentState (escrow w) = AWAITING_DELIVERY) ''Invalid state''
           (if requireMultiSig (escrow w) then
              (let w1 = w\<lparr>escrow := (escrow w)\<lparr>sellerApproved := True\<rparr>\<rparr> in
               if buyerApproved (escrow w1) then releaseFunds ev w1 else Inr w1)
            else Inr w))))"

definition requestRefund :: "env \<Rightarrow> world \<Rightarrow> error + world" where
  "requestRefund ev w =
     onlyParties ev w (notExpired ev w
       (require (sender ev = buyer (escrow w)) ''Only buyer can refund''
         (require (currentState (escrow w) = AWAITING_DELIVERY) ''Invalid state''
           (let w1 = setState REFUNDED w in
            transfer ev (buyer (escrow w1)) (balance w1 (thisAddr w1)) w1))))"

definition raiseDispute :: "env \<Rightarrow> world \<Rightarrow> error + world" where
  "raiseDispute ev w =
     onlyParties ev w (notExpired ev w
       (require (currentState (escrow w) = AWAITING_DELIVERY) ''Invalid state''
         (Inr (setState DISPUTED w))))"

definition adminResolution :: "bool \<Rightarrow> env \<Rightarrow> world \<Rightarrow> error + world" where
  "adminResolution releaseToSeller ev w =
     onlyAdmin ev w
       (require (currentState (escrow w) = DISPUTED) ''No active dispute''
         (case (if releaseToSeller then
                  (case checked_sub (amount (escrow w)) (adminFee (escrow w)) of
                     Inl x \<Rightarrow> Inl x
                   | Inr sellerAmount \<Rightarrow>
                       (case transfer ev (seller (escrow w)) (uint sellerAmount) w of
                          Inl x \<Rightarrow> Inl x
                        | Inr w1 \<Rightarrow>
                            transfer ev (admin (escrow w1)) (uint (adminFee (escrow w1))) w1))
                else transfer ev (buyer (escrow w)) (balance w (thisAddr w)) w) of
            Inl x \<Rightarrow> Inl x
          | Inr w2 \<Rightarrow> Inr (setState COMPLETE w2)))"

definition expireEscrow :: "env \<Rightarrow> world \<Rightarrow> error + world" where
  "expireEscrow ev w =
     require (timestamp ev \<ge> expiryTime (escrow w)) ''Not expired yet''
       (require (currentState (escrow w) = AWAITING_DELIVERY) ''Already resolved''
         (let w1 = setState REFUNDED w in
          transfer ev (buyer (escrow w1)) (balance w1 (thisAddr w1)) w1))"

subsection \<open>Transactions and sequences of transactions\<close>

datatype call =
  ConfirmDelivery | ConfirmPayment | RequestRefund | RaiseDispute
| AdminResolution bool | ExpireEscrow

fun body :: "call \<Rightarrow> env \<Rightarrow> world \<Rightarrow> error + world" where
  "body ConfirmDelivery = confirmDelivery"
| "body ConfirmPayment = confirmPayment"
| "body RequestRefund = requestRefund"
| "body RaiseDispute = raiseDispute"
| "body (AdminResolution b) = adminResolution b"
| "body ExpireEscrow = expireEscrow"

text \<open>A transaction that reverts leaves the world as it was.\<close>

definition exec :: "env \<times> call \<Rightarrow> world \<Rightarrow> world" where
  "exec tx w = (case body (snd tx) (fst tx) w of Inl x \<Rightarrow> w | Inr w' \<Rightarrow> w')"

fun run :: "world \<Rightarrow> (env \<times> call) list \<Rightarrow> world" where
  "run w [] = w"
| "run w (tx # txs) = run (exec tx w) txs"

definition terminal :: "State \<Rightarrow> bool" where
  "terminal s = (s = COMPLETE \<or> s = REFUNDED)"

text \<open>The sum of all balances (there are finitely many addresses), and the ledgers
  without a negative balance.\<close>

definition ledger_sum :: "ledger \<Rightarrow> int" where
  "ledger_sum bal = sum bal UNIV"

definition nonneg :: "ledger \<Rightarrow> bool" where
  "nonneg bal = (\<forall>a. 0 \<le> bal a)"

text \<open>The escrow holds exactly the deposit.\<close>

definition custody :: "world \<Rightarrow> bool" where
  "custody w = (balance w (thisAddr w) = uint (amount (escrow w)))"

text \<open>A release pays the seller and then the admin; it cannot go through when one of
  them does not take the payment or the escrow holds less than the deposit. A refund
  pays the buyer the whole balance of the escrow.\<close>

definition releaseBlocked :: "env \<Rightarrow> world \<Rightarrow> bool" where
  "releaseBlocked ev w =
     (seller (escrow w) = thisAddr w \<or> seller (escrow w) \<notin> receives ev \<or>
      admin (escrow w) = thisAddr w \<or> admin (escrow w) \<notin> receives ev \<or>
      balance w (thisAddr w) < uint (amount (escrow w)))"

definition refundBlocked :: "env \<Rightarrow> world \<Rightarrow> bool" where
  "refundBlocked ev w =
     (buyer (escrow w) = thisAddr w \<or> buyer (escrow w) \<notin> receives ev)"

text \<open>The world after a release (seller paid \<open>amount - adminFee\<close>, then admin paid
  \<open>adminFee\<close>, state \<open>COMPLETE\<close>) and after a refund of the whole balance to the buyer
  (state \<open>s\<close>).\<close>

definition released :: "world \<Rightarrow> world" where
  "released w = (setState COMPLETE w)\<lparr>balance :=
      move (move (balance w) (thisAddr w) (seller (escrow w))
              (uint (amount (escrow w)) - uint (adminFee (escrow w))))
           (thisAddr w) (admin (escrow w)) (uint (adminFee (escrow w)))\<rparr>"

definition refunded :: "State \<Rightarrow> world \<Rightarrow> world" where
  "refunded s w = (setState s w)\<lparr>balance :=
      move (balance w) (thisAddr w) (buyer (escrow w)) (balance w (thisAddr w))\<rparr>"

text \<open>The terms of an agreement: the fields that only the constructor assigns.\<close>

definition sameTerms :: "world \<Rightarrow> world \<Rightarrow> bool" where
  "sameTerms w w' =
     (thisAddr w' = thisAddr w \<and>
      admin (escrow w') = admin (escrow w) \<and> buyer (escrow w') = buyer (escrow w) \<and>
      seller (escrow w') = seller (escrow w) \<and>
      expiryTime (escrow w') = expiryTime (escrow w) \<and>
      adminFee (escrow w') = adminFee (escrow w) \<and>
      amount (escrow w') = amount (escrow w) \<and>
      requireMultiSig (escrow w') = requireMultiSig (escrow w))"

text \<open>What every successful call keeps: the terms, the sum of the ledger, and its
  non-negativity.\<close>

definition step_ok :: "world \<Rightarrow> world \<Rightarrow> bool" where
  "step_ok w w' =
     (sameTerms w w' \<and> ledger_sum (balance w') = ledger_sum (balance w) \<and>
      (nonneg (balance w) \<longrightarrow> nonneg (balance w')))"

subsection \<open>Sample data\<close>

text \<open>The scenario of the specification: buyer 1, seller 2, admin 3, the escrow at address
  4, a deposit of 1000 at 250 basis points (fee 25), created at time 100 for one day.\<close>

definition ledger0 :: ledger where
  "ledger0 = (\<lambda>a. 0)"

definition callBy :: "address \<Rightarrow> uint256 \<Rightarrow> env" where
  "callBy who t = \<lparr>sender = who, timestamp = t, receives = UNIV\<rparr>"

definition sampleEscrow :: "bool \<Rightarrow> State \<Rightarrow> Escrow" where
  "sampleEscrow multiSig s =
     \<lparr>admin = 3, buyer = 1, seller = 2, expiryTime = 86500, adminFee = 25,
      amount = 1000, currentState = s, requireMultiSig = multiSig,
      buyerApproved = False, sellerApproved = False\<rparr>"

definition sampleWorld :: "bool \<Rightarrow> State \<Rightarrow> world" where
  "sampleWorld multiSig s =
     \<lparr>thisAddr = 4, escrow = sampleEscrow multiSig s, balance = ledger0(4 := 1000)\<rparr>"

definition sampleFactory :: EscrowFactory where
  "sampleFactory = \<lparr>factoryAdmin = 3, adminFeePercentage = 250, allEscrows = []\<rparr>"

section \<open>Ledger arithmetic and payments\<close>

lemma ledger_sum_upd: "ledger_sum (f(a := x)) = ledger_sum f - f a + x"
proof -
  have "sum (f(a := x)) UNIV = (f(a := x)) a + sum (f(a := x)) (UNIV - {a})"
    by (rule sum.remove) simp_all
  moreover have "sum f UNIV = f a + sum f (UNIV - {a})"
    by (rule sum.remove) simp_all
  moreover have "sum (f(a := x)) (UNIV - {a}) = sum f (UNIV - {a})"
    by (rule sum.cong) simp_all
  ultimately show ?thesis by (simp add: ledger_sum_def)
qed

lemma ledger_sum_move: "ledger_sum (move bal a b v) = ledger_sum bal"
  by (simp add: move_def Let_def ledger_sum_upd)

lemma nonneg_move: "nonneg bal \<Longrightarrow> 0 \<le> v \<Longrightarrow> v \<le> bal a \<Longrightarrow> nonneg (move bal a b v)"
  by (simp add: move_def Let_def nonneg_def)

lemma transfer_Inr_iff:
  "transfer ev to v w = Inr w' \<longleftrightarrow>
     v \<le> balance w (thisAddr w) \<and> to \<noteq> thisAddr w \<and> to \<in> receives ev \<and>
     w' = w\<lparr>balance := move (balance w) (thisAddr w) to v\<rparr>"
  by (auto simp: transfer_def)

lemma transfer_Inl_iff:
  "transfer ev to v w = Inl x \<longleftrightarrow>
     x = TransferFailed \<and>
     (balance w (thisAddr w) < v \<or> to = thisAddr w \<or> to \<notin> receives ev)"
  by (auto simp: transfer_def)

lemma uint_sub_le: "(b::uint256) \<le> a \<Longrightarrow> uint (a - b) = uint a - uint b"
  by (simp add: uint_minus_simple_alt)

lemma move_this: "b \<noteq> a \<Longrightarrow> move bal a b v a = bal a - v"
  by (simp add: move_def Let_def)

lemmas guard_defs = onlyParties_def onlyAdmin_def notExpired_def require_def

lemma released_ok:
  assumes "adminFee (escrow w) \<le> amount (escrow w)" and "\<not> releaseBlocked ev w"
  defines "bal' \<equiv> move (move (balance w) (thisAddr w) (seller (escrow w))
                    (uint (amount (escrow w)) - uint (adminFee (escrow w))))
                 (thisAddr w) (admin (escrow w)) (uint (adminFee (escrow w)))"
  shows "ledger_sum bal' = ledger_sum (balance w)"
    and "nonneg (balance w) \<Longrightarrow> nonneg bal'"
proof -
  show "ledger_sum bal' = ledger_sum (balance w)"
    by (simp add: bal'_def ledger_sum_move)
  assume nn: "nonneg (balance w)"
  from assms(1) have le: "uint (adminFee (escrow w)) \<le> uint (amount (escrow w))"
    by (simp add: word_le_def)
  from assms(2) have enough: "uint (amount (escrow w)) \<le> balance w (thisAddr w)"
    and ne: "seller (escrow w) \<noteq> thisAddr w"
    by (auto simp: releaseBlocked_def)
  have n1: "nonneg (move (balance w) (thisAddr w) (seller (escrow w))
                    (uint (amount (escrow w)) - uint (adminFee (escrow w))))"
    using le enough uint_ge_0 [of "adminFee (escrow w)"]
    by (intro nonneg_move [OF nn]) linarith+
  show "nonneg bal'"
    unfolding bal'_def using le enough ne
    by (intro nonneg_move [OF n1]) (simp_all add: move_this)
qed

lemma refunded_ok:
  "nonneg (balance w) \<Longrightarrow> nonneg (move (balance w) (thisAddr w) b (balance w (thisAddr w)))"
  by (rule nonneg_move) (simp_all add: nonneg_def)

lemma setState_simps:
  "escrow (setState s w) = (escrow w)\<lparr>currentState := s\<rparr>"
  "thisAddr (setState s w) = thisAddr w"
  "balance (setState s w) = balance w"
  by (simp_all add: setState_def)

lemma payout_Inr_iff:
  "(case checked_sub (amount (escrow w)) (adminFee (escrow w)) of
      Inl x \<Rightarrow> Inl x
    | Inr sellerAmount \<Rightarrow>
        (case transfer ev (seller (escrow w)) (uint sellerAmount) w of
           Inl x \<Rightarrow> Inl x
         | Inr w1 \<Rightarrow> transfer ev (admin (escrow w1)) (uint (adminFee (escrow w1))) w1)) = Inr w'
   \<longleftrightarrow>
     adminFee (escrow w) \<le> amount (escrow w) \<and> \<not> releaseBlocked ev w \<and>
     w' = w\<lparr>balance :=
            move (move (balance w) (thisAddr w) (seller (escrow w))
                    (uint (amount (escrow w)) - uint (adminFee (escrow w))))
                 (thisAddr w) (admin (escrow w)) (uint (adminFee (escrow w)))\<rparr>"
proof (cases "adminFee (escrow w) \<le> amount (escrow w)")
  case False
  then show ?thesis
    by (simp add: checked_sub_def)
next
  case True
  then have u: "uint (amount (escrow w) - adminFee (escrow w))
                  = uint (amount (escrow w)) - uint (adminFee (escrow w))"
    by (rule uint_sub_le)
  show ?thesis using True
    unfolding checked_sub_def releaseBlocked_def
    by (auto simp: u transfer_Inr_iff transfer_Inl_iff move_this split: sum.splits)
       (use uint_ge_0 [of "adminFee (escrow w)"] in linarith)+
qed

lemma payout_Inl_iff:
  "(case checked_sub (amount (escrow w)) (adminFee (escrow w)) of
      Inl x \<Rightarrow> Inl x
    | Inr sellerAmount \<Rightarrow>
        (case transfer ev (seller (escrow w)) (uint sellerAmount) w of
           Inl x \<Rightarrow> Inl x
         | Inr w1 \<Rightarrow> transfer ev (admin (escrow w1)) (uint (adminFee (escrow w1))) w1)) = Inl x
   \<longleftrightarrow>
     (if adminFee (escrow w) \<le> amount (escrow w)
      then releaseBlocked ev w \<and> x = TransferFailed else x = Panic)"
proof (cases "adminFee (escrow w) \<le> amount (escrow w)")
  case False
  then show ?thesis
    by (auto simp: checked_sub_def)
next
  case True
  then have u: "uint (amount (escrow w) - adminFee (escrow w))
                  = uint (amount (escrow w)) - uint (adminFee (escrow w))"
    by (rule uint_sub_le)
  show ?thesis using True
    unfolding checked_sub_def releaseBlocked_def
    by (auto simp: u transfer_Inr_iff transfer_Inl_iff move_this split: sum.splits)
       (use uint_ge_0 [of "adminFee (escrow w)"] in linarith)+
qed

lemma refundPay_Inl_iff:
  "transfer ev (buyer (escrow w)) (balance w (thisAddr w)) w = Inl x \<longleftrightarrow>
     refundBlocked ev w \<and> x = TransferFailed"
  by (auto simp: transfer_Inl_iff refundBlocked_def)

lemma blocked_setState [simp]:
  "releaseBlocked ev (setState s w) = releaseBlocked ev w"
  "refundBlocked ev (setState s w) = refundBlocked ev w"
  by (simp_all add: releaseBlocked_def refundBlocked_def setState_def)

lemma blocked_flags [simp]:
  "releaseBlocked ev (w\<lparr>escrow := (escrow w)\<lparr>buyerApproved := b\<rparr>\<rparr>) = releaseBlocked ev w"
  "releaseBlocked ev (w\<lparr>escrow := (escrow w)\<lparr>sellerApproved := b\<rparr>\<rparr>) = releaseBlocked ev w"
  by (simp_all add: releaseBlocked_def)

section \<open>The outcome of every function, branch by branch\<close>

lemma releaseFunds_eq:
  "releaseFunds ev w =
     (if \<not> adminFee (escrow w) \<le> amount (escrow w) then Inl Panic
      else if releaseBlocked ev w then Inl TransferFailed
      else Inr (released w))"
proof (cases "releaseFunds ev w")
  case (Inl x)
  then show ?thesis
    using payout_Inl_iff [where w = "setState COMPLETE w" and ev = ev and x = x]
    by (auto simp: releaseFunds_def Let_def setState_simps split: if_splits)
next
  case (Inr w')
  then show ?thesis
    using payout_Inr_iff [where w = "setState COMPLETE w" and ev = ev and w' = w']
    by (auto simp: releaseFunds_def Let_def setState_simps released_def split: if_splits)
qed

lemma refund_eq:
  "transfer ev (buyer (escrow (setState s w))) (balance (setState s w) (thisAddr (setState s w)))
      (setState s w) =
   (if refundBlocked ev w then Inl TransferFailed else Inr (refunded s w))"
  by (auto simp: transfer_def refundBlocked_def refunded_def setState_def)

lemma adminResolution_eq:
  "adminResolution b ev w =
     (if sender ev \<noteq> admin (escrow w) then Inl (Revert ''Only admin'')
      else if currentState (escrow w) \<noteq> DISPUTED then Inl (Revert ''No active dispute'')
      else if b then
        (if \<not> adminFee (escrow w) \<le> amount (escrow w) then Inl Panic
         else if releaseBlocked ev w then Inl TransferFailed
         else Inr (released w))
      else (if refundBlocked ev w then Inl TransferFailed else Inr (refunded COMPLETE w)))"
proof (cases b)
  case False
  then show ?thesis
    by (auto simp: adminResolution_def guard_defs transfer_def refundBlocked_def
          refunded_def setState_def)
next
  case True
  let ?p = "case checked_sub (amount (escrow w)) (adminFee (escrow w)) of
      Inl x \<Rightarrow> Inl x
    | Inr sellerAmount \<Rightarrow>
        (case transfer ev (seller (escrow w)) (uint sellerAmount) w of
           Inl x \<Rightarrow> Inl x
         | Inr w1 \<Rightarrow> transfer ev (admin (escrow w1)) (uint (adminFee (escrow w1))) w1)"
  have p: "?p = (if \<not> adminFee (escrow w) \<le> amount (escrow w) then Inl Panic
      else if releaseBlocked ev w then Inl TransferFailed
      else Inr (w\<lparr>balance :=
            move (move (balance w) (thisAddr w) (seller (escrow w))
                    (uint (amount (escrow w)) - uint (adminFee (escrow w))))
                 (thisAddr w) (admin (escrow w)) (uint (adminFee (escrow w)))\<rparr>))"
  proof (cases ?p)
    case (Inl x)
    then show ?thesis using payout_Inl_iff [where w = w and ev = ev and x = x]
      by (auto split: if_splits)
  next
    case (Inr w')
    then show ?thesis using payout_Inr_iff [where w = w and ev = ev and w' = w']
      by (auto split: if_splits)
  qed
  show ?thesis
    unfolding adminResolution_def guard_defs using True
    by (simp add: p released_def setState_def)
qed

lemma confirmDelivery_eq:
  "confirmDelivery ev w =
     (if \<not> (sender ev = buyer (escrow w) \<or> sender ev = seller (escrow w))
        then Inl (Revert ''Not a party'')
      else if \<not> timestamp ev < expiryTime (escrow w) then Inl (Revert ''Escrow expired'')
      else if sender ev \<noteq> buyer (escrow w) then Inl (Revert ''Only buyer can confirm'')
      else if currentState (escrow w) \<noteq> AWAITING_DELIVERY then Inl (Revert ''Invalid state'')
      else if requireMultiSig (escrow w) \<and> \<not> sellerApproved (escrow w)
        then Inr (w\<lparr>escrow := (escrow w)\<lparr>buyerApproved := True\<rparr>\<rparr>)
      else if \<not> adminFee (escrow w) \<le> amount (escrow w) then Inl Panic
      else if releaseBlocked ev w then Inl TransferFailed
      else if requireMultiSig (escrow w)
        then Inr (released (w\<lparr>escrow := (escrow w)\<lparr>buyerApproved := True\<rparr>\<rparr>))
      else Inr (released w))"
  by (simp add: confirmDelivery_def guard_defs releaseFunds_eq Let_def)

lemma confirmPayment_eq:
  "confirmPayment ev w =
     (if \<not> (sender ev = buyer (escrow w) \<or> sender ev = seller (escrow w))
        then Inl (Revert ''Not a party'')
      else if \<not> timestamp ev < expiryTime (escrow w) then Inl (Revert ''Escrow expired'')
      else if sender ev \<noteq> seller (escrow w) then Inl (Revert ''Only seller can confirm'')
      else if currentState (escrow w) \<noteq> AWAITING_DELIVERY then Inl (Revert ''Invalid state'')
      else if \<not> requireMultiSig (escrow w) then Inr w
      else if \<not> buyerApproved (escrow w)
        then Inr (w\<lparr>escrow := (escrow w)\<lparr>sellerApproved := True\<rparr>\<rparr>)
      else if \<not> adminFee (escrow w) \<le> amount (escrow w) then Inl Panic
      else if releaseBlocked ev w then Inl TransferFailed
      else Inr (released (w\<lparr>escrow := (escrow w)\<lparr>sellerApproved := True\<rparr>\<rparr>)))"
  by (simp add: confirmPayment_def guard_defs releaseFunds_eq Let_def)

lemma requestRefund_eq:
  "requestRefund ev w =
     (if \<not> (sender ev = buyer (escrow w) \<or> sender ev = seller (escrow w))
        then Inl (Revert ''Not a party'')
      else if \<not> timestamp ev < expiryTime (escrow w) then Inl (Revert ''Escrow expired'')
      else if sender ev \<noteq> buyer (escrow w) then Inl (Revert ''Only buyer can refund'')
      else if currentState (escrow w) \<noteq> AWAITING_DELIVERY then Inl (Revert ''Invalid state'')
      else if refundBlocked ev w then Inl TransferFailed
      else Inr (refunded REFUNDED w))"
  by (simp add: requestRefund_def guard_defs refund_eq Let_def)

lemma raiseDispute_eq:
  "raiseDispute ev w =
     (if \<not> (sender ev = buyer (escrow w) \<or> sender ev = seller (escrow w))
        then Inl (Revert ''Not a party'')
      else if \<not> timestamp ev < expiryTime (escrow w) then Inl (Revert ''Escrow expired'')
      else if currentState (escrow w) \<noteq> AWAITING_DELIVERY then Inl (Revert ''Invalid state'')
      else Inr (setState DISPUTED w))"
  by (simp add: raiseDispute_def guard_defs)

lemma expireEscrow_eq:
  "expireEscrow ev w =
     (if \<not> expiryTime (escrow w) \<le> timestamp ev then Inl (Revert ''Not expired yet'')
      else if currentState (escrow w) \<noteq> AWAITING_DELIVERY then Inl (Revert ''Already resolved'')
      else if refundBlocked ev w then Inl TransferFailed
      else Inr (refunded REFUNDED w))"
  by (simp add: expireEscrow_def guard_defs refund_eq Let_def)

lemmas body_eqs = confirmDelivery_eq confirmPayment_eq requestRefund_eq raiseDispute_eq
  adminResolution_eq expireEscrow_eq

lemma released_simps:
  "thisAddr (released w) = thisAddr w"
  "escrow (released w) = (escrow w)\<lparr>currentState := COMPLETE\<rparr>"
  "balance (released w) =
     move (move (balance w) (thisAddr w) (seller (escrow w))
             (uint (amount (escrow w)) - uint (adminFee (escrow w))))
          (thisAddr w) (admin (escrow w)) (uint (adminFee (escrow w)))"
  by (simp_all add: released_def setState_def)

lemma refunded_simps:
  "thisAddr (refunded s w) = thisAddr w"
  "escrow (refunded s w) = (escrow w)\<lparr>currentState := s\<rparr>"
  "balance (refunded s w) =
     move (balance w) (thisAddr w) (buyer (escrow w)) (balance w (thisAddr w))"
  by (simp_all add: refunded_def setState_def)

section \<open>What every transaction preserves\<close>

lemma step_ok_refl: "step_ok w w"
  by (simp add: step_ok_def sameTerms_def)

lemma step_ok_trans: "step_ok a b \<Longrightarrow> step_ok b c \<Longrightarrow> step_ok a c"
  by (simp add: step_ok_def sameTerms_def)

lemma step_ok_storage:
  "step_ok w (w\<lparr>escrow := (escrow w)\<lparr>buyerApproved := b\<rparr>\<rparr>)"
  "step_ok w (w\<lparr>escrow := (escrow w)\<lparr>sellerApproved := b\<rparr>\<rparr>)"
  "step_ok w (setState s w)"
  by (simp_all add: step_ok_def sameTerms_def setState_def)

lemma step_ok_released:
  "adminFee (escrow w) \<le> amount (escrow w) \<Longrightarrow> \<not> releaseBlocked ev w \<Longrightarrow>
   step_ok w (released w)"
  by (simp add: step_ok_def sameTerms_def released_simps ledger_sum_move released_ok(2))

lemma step_ok_refunded: "step_ok w (refunded s w)"
  by (simp add: step_ok_def sameTerms_def refunded_simps ledger_sum_move refunded_ok)

lemma body_step_ok: "body c ev w = Inr w' \<Longrightarrow> step_ok w w'"
proof (cases c)
  case ConfirmDelivery
  assume "body c ev w = Inr w'"
  with ConfirmDelivery show ?thesis
    using step_ok_released [of w ev]
      step_ok_released [of "w\<lparr>escrow := (escrow w)\<lparr>buyerApproved := True\<rparr>\<rparr>" ev]
      step_ok_storage(1) [of w True]
    by (auto simp: confirmDelivery_eq split: if_splits intro: step_ok_trans)
next
  case ConfirmPayment
  assume "body c ev w = Inr w'"
  with ConfirmPayment show ?thesis
    using step_ok_released [of "w\<lparr>escrow := (escrow w)\<lparr>sellerApproved := True\<rparr>\<rparr>" ev]
      step_ok_storage(2) [of w True]
    by (auto simp: confirmPayment_eq step_ok_refl split: if_splits intro: step_ok_trans)
next
  case RequestRefund
  assume "body c ev w = Inr w'"
  with RequestRefund show ?thesis
    by (auto simp: requestRefund_eq step_ok_refunded split: if_splits)
next
  case RaiseDispute
  assume "body c ev w = Inr w'"
  with RaiseDispute show ?thesis
    by (auto simp: raiseDispute_eq step_ok_storage split: if_splits)
next
  case (AdminResolution b)
  assume "body c ev w = Inr w'"
  with AdminResolution show ?thesis
    using step_ok_released [of w ev]
    by (auto simp: adminResolution_eq step_ok_refunded split: if_splits)
next
  case ExpireEscrow
  assume "body c ev w = Inr w'"
  with ExpireEscrow show ?thesis
    by (auto simp: expireEscrow_eq step_ok_refunded split: if_splits)
qed

lemma exec_step_ok: "step_ok w (exec tx w)"
  by (cases "body (snd tx) (fst tx) w") (simp_all add: exec_def step_ok_refl body_step_ok)

lemma run_step_ok: "step_ok w (run w txs)"
proof (induction txs arbitrary: w)
  case Nil
  show ?case by (simp add: step_ok_refl)
next
  case (Cons tx txs)
  have "step_ok w (exec tx w)" by (rule exec_step_ok)
  moreover have "step_ok (exec tx w) (run (exec tx w) txs)" by (rule Cons.IH)
  ultimately show ?case by (auto intro: step_ok_trans)
qed

lemma run_append: "run w (xs @ ys) = run (run w xs) ys"
  by (induction xs arbitrary: w) simp_all

lemma terminal_body_fails:
  "terminal (currentState (escrow w)) \<Longrightarrow> \<exists>msg. body c ev w = Inl (Revert msg)"
  by (cases c) (auto simp: body_eqs terminal_def)

lemma terminal_exec: "terminal (currentState (escrow w)) \<Longrightarrow> exec tx w = w"
  using terminal_body_fails [of w "snd tx" "fst tx"] by (auto simp: exec_def)

lemma terminal_run: "terminal (currentState (escrow w)) \<Longrightarrow> run w txs = w"
  by (induction txs) (simp_all add: terminal_exec)

lemmas sample_defs = sampleWorld_def sampleEscrow_def callBy_def ledger0_def sampleFactory_def

lemmas eval_defs = body_eqs exec_def released_def refunded_def setState_def
  releaseBlocked_def refundBlocked_def move_def Let_def terminal_def

section \<open>The claims\<close>

subsection \<open>C1: terminal states are final\<close>

text \<open>
  C1, as the code has it. Let \<open>w\<close> be the world after any history \<open>xs\<close> from any start
  \<open>w0\<close>, with the agreement in \<open>COMPLETE\<close> or \<open>REFUNDED\<close>. Then every longer history
  \<open>xs @ ys\<close> ends in the same world, so the other terminal state is never reached and no
  balance moves again. Every call reverts with a \<open>require\<close> message and leaves the world
  unchanged. The message is that of the state check (\<open>Invalid state\<close>; \<open>No active dispute\<close>
  for \<open>adminResolution\<close>; \<open>Already resolved\<close> for \<open>expireEscrow\<close>) when the checks
  written before it pass: the caller is the party or admin the function asks for, and the
  time is on the side of \<open>expiryTime\<close> it asks for. Otherwise the earlier check decides
  the message.
\<close>

theorem terminal_is_final:
  assumes "w = run w0 xs" and "terminal (currentState (escrow w))"
  shows "run w0 (xs @ ys) = w \<and>
         (\<exists>msg. body c ev w = Inl (Revert msg)) \<and> exec (ev, c) w = w \<and>
         (sender ev = buyer (escrow w) \<and> timestamp ev < expiryTime (escrow w) \<longrightarrow>
            confirmDelivery ev w = Inl (Revert ''Invalid state'') \<and>
            requestRefund ev w = Inl (Revert ''Invalid state'') \<and>
            raiseDispute ev w = Inl (Revert ''Invalid state'')) \<and>
         (sender ev = seller (escrow w) \<and> timestamp ev < expiryTime (escrow w) \<longrightarrow>
            confirmPayment ev w = Inl (Revert ''Invalid state'') \<and>
            raiseDispute ev w = Inl (Revert ''Invalid state'')) \<and>
         (sender ev = admin (escrow w) \<longrightarrow>
            adminResolution b ev w = Inl (Revert ''No active dispute'')) \<and>
         (expiryTime (escrow w) \<le> timestamp ev \<longrightarrow>
            expireEscrow ev w = Inl (Revert ''Already resolved'')) \<and>
         (sender ev \<noteq> buyer (escrow w) \<and> sender ev \<noteq> seller (escrow w) \<longrightarrow>
            confirmDelivery ev w = Inl (Revert ''Not a party'') \<and>
            confirmPayment ev w = Inl (Revert ''Not a party'') \<and>
            requestRefund ev w = Inl (Revert ''Not a party'') \<and>
            raiseDispute ev w = Inl (Revert ''Not a party'')) \<and>
         ((sender ev = buyer (escrow w) \<or> sender ev = seller (escrow w)) \<and>
          expiryTime (escrow w) \<le> timestamp ev \<longrightarrow>
            confirmDelivery ev w = Inl (Revert ''Escrow expired'') \<and>
            confirmPayment ev w = Inl (Revert ''Escrow expired'') \<and>
            requestRefund ev w = Inl (Revert ''Escrow expired'') \<and>
            raiseDispute ev w = Inl (Revert ''Escrow expired'')) \<and>
         (sender ev = seller (escrow w) \<and> sender ev \<noteq> buyer (escrow w) \<and>
          timestamp ev < expiryTime (escrow w) \<longrightarrow>
            confirmDelivery ev w = Inl (Revert ''Only buyer can confirm'') \<and>
            requestRefund ev w = Inl (Revert ''Only buyer can refund'')) \<and>
         (sender ev = buyer (escrow w) \<and> sender ev \<noteq> seller (escrow w) \<and>
          timestamp ev < expiryTime (escrow w) \<longrightarrow>
            confirmPayment ev w = Inl (Revert ''Only seller can confirm'')) \<and>
         (sender ev \<noteq> admin (escrow w) \<longrightarrow>
            adminResolution b ev w = Inl (Revert ''Only admin'')) \<and>
         (timestamp ev < expiryTime (escrow w) \<longrightarrow>
            expireEscrow ev w = Inl (Revert ''Not expired yet''))"
proof -
  have "run w0 (xs @ ys) = w"
    using assms by (simp add: run_append terminal_run)
  moreover have "\<exists>msg. body c ev w = Inl (Revert msg)"
    using assms(2) by (rule terminal_body_fails)
  moreover have "exec (ev, c) w = w"
    using assms(2) by (rule terminal_exec)
  moreover have "currentState (escrow w) \<noteq> AWAITING_DELIVERY"
    and "currentState (escrow w) \<noteq> DISPUTED"
    using assms(2) by (auto simp: terminal_def)
  ultimately show ?thesis
    by (auto simp: body_eqs)
qed

text \<open>The sample agreement, completed by the buyer at time 200: a refund request and an
  expiry afterwards change nothing.\<close>

theorem terminal_is_final_witness:
  "terminal (currentState (escrow
      (run (sampleWorld False AWAITING_DELIVERY) [(callBy 1 200, ConfirmDelivery)]))) \<and>
   run (sampleWorld False AWAITING_DELIVERY)
     ([(callBy 1 200, ConfirmDelivery)] @
      [(callBy 1 300, RequestRefund), (callBy 7 90000, ExpireEscrow)])
     = run (sampleWorld False AWAITING_DELIVERY) [(callBy 1 200, ConfirmDelivery)] \<and>
   currentState (escrow
      (run (sampleWorld False AWAITING_DELIVERY) [(callBy 1 200, ConfirmDelivery)])) = COMPLETE"
proof -
  have t: "terminal (currentState (escrow
      (run (sampleWorld False AWAITING_DELIVERY) [(callBy 1 200, ConfirmDelivery)])))"
    by (simp add: sample_defs eval_defs)
  have c: "currentState (escrow
      (run (sampleWorld False AWAITING_DELIVERY) [(callBy 1 200, ConfirmDelivery)])) = COMPLETE"
    by (simp add: sample_defs eval_defs)
  from terminal_is_final [OF refl t,
      of "[(callBy 1 300, RequestRefund), (callBy 7 90000, ExpireEscrow)]"]
  show ?thesis using t c by blast
qed

text \<open>C1 as stated fails: on the completed sample agreement \<open>confirmDelivery\<close> by a stranger
  (address 9) reverts with \<open>Not a party\<close>, and by the buyer after expiry with
  \<open>Escrow expired\<close>, not with \<open>Invalid state\<close>.\<close>

theorem terminal_error_counterexample:
  "terminal (currentState (escrow
      (exec (callBy 1 200, ConfirmDelivery) (sampleWorld False AWAITING_DELIVERY)))) \<and>
   confirmDelivery (callBy 9 300)
      (exec (callBy 1 200, ConfirmDelivery) (sampleWorld False AWAITING_DELIVERY))
     = Inl (Revert ''Not a party'') \<and>
   confirmDelivery (callBy 1 90000)
      (exec (callBy 1 200, ConfirmDelivery) (sampleWorld False AWAITING_DELIVERY))
     = Inl (Revert ''Escrow expired'') \<and>
   confirmDelivery (callBy 9 300)
      (exec (callBy 1 200, ConfirmDelivery) (sampleWorld False AWAITING_DELIVERY))
     \<noteq> Inl (Revert ''Invalid state'')"
  by (simp add: sample_defs eval_defs)

subsection \<open>C2: conservation of value\<close>






subsection \<open>C3: the fee is exact\<close>

lemma checked_mul_Inr: "checked_mul a b = Inr c \<Longrightarrow> unat c = unat a * unat b"
  by (auto simp: checked_mul_def unat_mult_lem [THEN iffD1] split: if_splits)

lemma checked_add_Inr: "checked_add a b = Inr c \<Longrightarrow> unat c = unat a + unat b"
  by (auto simp: checked_add_def unat_add_lem [THEN iffD1] split: if_splits)

lemma constructor_Inr:
  assumes "Escrow_constructor ev v b s a d m p = Inr e"
  shows "amount e = v" and "unat (adminFee e) = unat v * unat p div 10000"
    and "unat (expiryTime e) = unat (timestamp ev) + unat d * 86400"
    and "admin e = a \<and> buyer e = b \<and> seller e = s \<and> requireMultiSig e = m"
    and "currentState e = AWAITING_DELIVERY \<and> \<not> buyerApproved e \<and> \<not> sellerApproved e"
  using assms
  by (auto simp: Escrow_constructor_def unat_div dest!: checked_mul_Inr checked_add_Inr
      split: sum.splits)

lemma constructor_succeeds:
  assumes "unat v * unat p < 2 ^ 256" and "unat (timestamp ev) + unat d * 86400 < 2 ^ 256"
  shows "\<exists>e. Escrow_constructor ev v b s a d m p = Inr e"
proof -
  from assms(2) have dd: "unat d * unat (86400 :: uint256) < 2 ^ 256" by simp
  then have "unat (d * 86400) = unat d * 86400"
    using unat_mult_lem [of d "86400 :: uint256"] by simp
  with assms dd show ?thesis
    by (simp add: Escrow_constructor_def checked_mul_def checked_add_def)
qed

text \<open>
  C3. Whenever the constructor returns an escrow, its \<open>amount\<close> is the deposit and its
  \<open>adminFee\<close> is \<open>amount * feePercentage div 10000\<close> in exact (natural number)
  arithmetic; it returns one whenever neither the product nor the expiry time exceeds 256
  bits (otherwise the checked arithmetic of Solidity 0.8 reverts and no agreement exists).
  No transaction changes \<open>adminFee\<close> or \<open>amount\<close>. Whenever a release pays out
  (\<open>_releaseFunds\<close>, or \<open>adminResolution(true)\<close>), the seller amount is the checked
  difference \<open>amount - adminFee\<close>, fee and seller amount add up to \<open>amount\<close> exactly,
  and these are the two sums that leave the escrow.
\<close>

theorem fee_is_exact:
  "(Escrow_constructor ev v b s a d m p = Inr e \<longrightarrow>
      amount e = v \<and> unat (adminFee e) = unat v * unat p div 10000) \<and>
   (unat v * unat p < 2 ^ 256 \<and> unat (timestamp ev) + unat d * 86400 < 2 ^ 256 \<longrightarrow>
      (\<exists>e'. Escrow_constructor ev v b s a d m p = Inr e')) \<and>
   adminFee (escrow (run w txs)) = adminFee (escrow w) \<and>
   amount (escrow (run w txs)) = amount (escrow w) \<and>
   (releaseFunds ev' w = Inr w' \<or> adminResolution True ev' w = Inr w' \<longrightarrow>
      (\<exists>sellerAmount.
         checked_sub (amount (escrow w)) (adminFee (escrow w)) = Inr sellerAmount \<and>
         unat sellerAmount = unat (amount (escrow w)) - unat (adminFee (escrow w)) \<and>
         unat (adminFee (escrow w)) + unat sellerAmount = unat (amount (escrow w)) \<and>
         balance w' =
           move (move (balance w) (thisAddr w) (seller (escrow w)) (uint sellerAmount))
                (thisAddr w) (admin (escrow w)) (uint (adminFee (escrow w)))))"
proof (intro conjI impI)
  assume "Escrow_constructor ev v b s a d m p = Inr e"
  then show "amount e = v" and "unat (adminFee e) = unat v * unat p div 10000"
    by (rule constructor_Inr)+
next
  assume "unat v * unat p < 2 ^ 256 \<and> unat (timestamp ev) + unat d * 86400 < 2 ^ 256"
  then show "\<exists>e'. Escrow_constructor ev v b s a d m p = Inr e'"
    by (intro constructor_succeeds) auto
next
  have "step_ok w (run w txs)" by (rule run_step_ok)
  then show "adminFee (escrow (run w txs)) = adminFee (escrow w)"
    and "amount (escrow (run w txs)) = amount (escrow w)"
    by (simp_all add: step_ok_def sameTerms_def)
next
  assume a: "releaseFunds ev' w = Inr w' \<or> adminResolution True ev' w = Inr w'"
  then have le: "adminFee (escrow w) \<le> amount (escrow w)"
    and bal: "balance w' = balance (released w)"
    by (auto simp: releaseFunds_eq adminResolution_eq split: if_splits)
  let ?sa = "amount (escrow w) - adminFee (escrow w)"
  have "checked_sub (amount (escrow w)) (adminFee (escrow w)) = Inr ?sa"
    using le by (simp add: checked_sub_def)
  moreover have u: "unat ?sa = unat (amount (escrow w)) - unat (adminFee (escrow w))"
    using le by (simp add: unat_sub)
  moreover have "unat (adminFee (escrow w)) + unat ?sa = unat (amount (escrow w))"
    using le u by (simp add: word_le_nat_alt)
  moreover have "balance w' =
           move (move (balance w) (thisAddr w) (seller (escrow w)) (uint ?sa))
                (thisAddr w) (admin (escrow w)) (uint (adminFee (escrow w)))"
    using le bal by (simp add: released_simps uint_sub_le)
  ultimately show "\<exists>sellerAmount.
         checked_sub (amount (escrow w)) (adminFee (escrow w)) = Inr sellerAmount \<and>
         unat sellerAmount = unat (amount (escrow w)) - unat (adminFee (escrow w)) \<and>
         unat (adminFee (escrow w)) + unat sellerAmount = unat (amount (escrow w)) \<and>
         balance w' =
           move (move (balance w) (thisAddr w) (seller (escrow w)) (uint sellerAmount))
                (thisAddr w) (admin (escrow w)) (uint (adminFee (escrow w)))"
    by blast
qed

text \<open>The scenario of the specification: 1000 at 250 basis points gives fee 25.\<close>

theorem fee_is_exact_witness:
  "Escrow_constructor (callBy 1 100) 1000 1 2 3 1 False 250
     = Inr (sampleEscrow False AWAITING_DELIVERY) \<and>
   unat (adminFee (sampleEscrow False AWAITING_DELIVERY)) = 25 \<and>
   releaseFunds (callBy 1 200) (sampleWorld False AWAITING_DELIVERY)
     = Inr (released (sampleWorld False AWAITING_DELIVERY)) \<and>
   (\<exists>sellerAmount. checked_sub 1000 25 = Inr sellerAmount \<and> 25 + unat sellerAmount = 1000)"
proof -
  have c: "Escrow_constructor (callBy 1 100) 1000 1 2 3 1 False 250
     = Inr (sampleEscrow False AWAITING_DELIVERY)"
    by (simp add: Escrow_constructor_def checked_mul_def checked_add_def sample_defs)
  have r: "releaseFunds (callBy 1 200) (sampleWorld False AWAITING_DELIVERY)
     = Inr (released (sampleWorld False AWAITING_DELIVERY))"
    by (simp add: releaseFunds_eq releaseBlocked_def sample_defs)
  have v: "amount (escrow (sampleWorld False AWAITING_DELIVERY)) = 1000"
    "adminFee (escrow (sampleWorld False AWAITING_DELIVERY)) = 25"
    "adminFee (sampleEscrow False AWAITING_DELIVERY) = 25"
    by (simp_all add: sample_defs)
  from fee_is_exact [where ev = "callBy 1 100" and v = 1000 and b = 1 and s = 2 and a = 3
      and d = 1 and m = False and p = 250 and e = "sampleEscrow False AWAITING_DELIVERY"
      and w = "sampleWorld False AWAITING_DELIVERY" and txs = "[]" and ev' = "callBy 1 200"
      and w' = "released (sampleWorld False AWAITING_DELIVERY)"] c r
  show ?thesis by (auto simp: v)
qed

subsection \<open>C4: a failed transfer aborts the whole transition\<close>

lemma body_Inl_exec: "body c ev w = Inl x \<Longrightarrow> exec (ev, c) w = w"
  by (simp add: exec_def)

text \<open>
  C4. A refund cannot be paid exactly when its \<open>transfer\<close> fails, and a release (with
  \<open>adminFee \<le> amount\<close>) exactly when \<open>_releaseFunds\<close> fails with \<open>TransferFailed\<close>:
  the payment to the seller fails, or it goes through and the payment to the admin fails.
  For each of \<open>confirmDelivery\<close> and \<open>confirmPayment\<close> (when they reach the release),
  \<open>requestRefund\<close>, \<open>adminResolution\<close> and \<open>expireEscrow\<close>: when the checks pass and the
  payment cannot be made, the call returns \<open>TransferFailed\<close> to its caller and the
  transaction leaves the world (state, flags and every balance) as it was, although the
  body had already assigned the new state and possibly paid the seller.
\<close>

theorem failed_transfer_aborts:
  "(refundBlocked ev w \<longleftrightarrow>
      transfer ev (buyer (escrow w)) (balance w (thisAddr w)) w = Inl TransferFailed) \<and>
   (adminFee (escrow w) \<le> amount (escrow w) \<and> releaseBlocked ev w \<longleftrightarrow>
      releaseFunds ev w = Inl TransferFailed) \<and>
   (body c ev w = Inl TransferFailed \<longrightarrow> exec (ev, c) w = w) \<and>
   (sender ev = buyer (escrow w) \<and> timestamp ev < expiryTime (escrow w) \<and>
    currentState (escrow w) = AWAITING_DELIVERY \<and>
    (requireMultiSig (escrow w) \<longrightarrow> sellerApproved (escrow w)) \<and>
    adminFee (escrow w) \<le> amount (escrow w) \<and> releaseBlocked ev w \<longrightarrow>
      confirmDelivery ev w = Inl TransferFailed \<and> exec (ev, ConfirmDelivery) w = w) \<and>
   (sender ev = seller (escrow w) \<and> timestamp ev < expiryTime (escrow w) \<and>
    currentState (escrow w) = AWAITING_DELIVERY \<and>
    requireMultiSig (escrow w) \<and> buyerApproved (escrow w) \<and>
    adminFee (escrow w) \<le> amount (escrow w) \<and> releaseBlocked ev w \<longrightarrow>
      confirmPayment ev w = Inl TransferFailed \<and> exec (ev, ConfirmPayment) w = w) \<and>
   (sender ev = buyer (escrow w) \<and> timestamp ev < expiryTime (escrow w) \<and>
    currentState (escrow w) = AWAITING_DELIVERY \<and> refundBlocked ev w \<longrightarrow>
      requestRefund ev w = Inl TransferFailed \<and> exec (ev, RequestRefund) w = w) \<and>
   (sender ev = admin (escrow w) \<and> currentState (escrow w) = DISPUTED \<and>
    (if b then adminFee (escrow w) \<le> amount (escrow w) \<and> releaseBlocked ev w
     else refundBlocked ev w) \<longrightarrow>
      adminResolution b ev w = Inl TransferFailed \<and> exec (ev, AdminResolution b) w = w) \<and>
   (expiryTime (escrow w) \<le> timestamp ev \<and>
    currentState (escrow w) = AWAITING_DELIVERY \<and> refundBlocked ev w \<longrightarrow>
      expireEscrow ev w = Inl TransferFailed \<and> exec (ev, ExpireEscrow) w = w)"
proof (intro conjI)
  show "refundBlocked ev w \<longleftrightarrow>
      transfer ev (buyer (escrow w)) (balance w (thisAddr w)) w = Inl TransferFailed"
    by (simp add: refundPay_Inl_iff)
  show "adminFee (escrow w) \<le> amount (escrow w) \<and> releaseBlocked ev w \<longleftrightarrow>
      releaseFunds ev w = Inl TransferFailed"
    by (simp add: releaseFunds_eq)
  show "body c ev w = Inl TransferFailed \<longrightarrow> exec (ev, c) w = w"
    by (simp add: body_Inl_exec)
  show "sender ev = buyer (escrow w) \<and> timestamp ev < expiryTime (escrow w) \<and>
    currentState (escrow w) = AWAITING_DELIVERY \<and>
    (requireMultiSig (escrow w) \<longrightarrow> sellerApproved (escrow w)) \<and>
    adminFee (escrow w) \<le> amount (escrow w) \<and> releaseBlocked ev w \<longrightarrow>
      confirmDelivery ev w = Inl TransferFailed \<and> exec (ev, ConfirmDelivery) w = w"
    by (simp add: exec_def confirmDelivery_eq)
  show "sender ev = seller (escrow w) \<and> timestamp ev < expiryTime (escrow w) \<and>
    currentState (escrow w) = AWAITING_DELIVERY \<and>
    requireMultiSig (escrow w) \<and> buyerApproved (escrow w) \<and>
    adminFee (escrow w) \<le> amount (escrow w) \<and> releaseBlocked ev w \<longrightarrow>
      confirmPayment ev w = Inl TransferFailed \<and> exec (ev, ConfirmPayment) w = w"
    by (simp add: exec_def confirmPayment_eq)
  show "sender ev = buyer (escrow w) \<and> timestamp ev < expiryTime (escrow w) \<and>
    currentState (escrow w) = AWAITING_DELIVERY \<and> refundBlocked ev w \<longrightarrow>
      requestRefund ev w = Inl TransferFailed \<and> exec (ev, RequestRefund) w = w"
    by (simp add: exec_def requestRefund_eq)
  show "sender ev = admin (escrow w) \<and> currentState (escrow w) = DISPUTED \<and>
    (if b then adminFee (escrow w) \<le> amount (escrow w) \<and> releaseBlocked ev w
     else refundBlocked ev w) \<longrightarrow>
      adminResolution b ev w = Inl TransferFailed \<and> exec (ev, AdminResolution b) w = w"
    by (simp add: exec_def adminResolution_eq)
  show "expiryTime (escrow w) \<le> timestamp ev \<and>
    currentState (escrow w) = AWAITING_DELIVERY \<and> refundBlocked ev w \<longrightarrow>
      expireEscrow ev w = Inl TransferFailed \<and> exec (ev, ExpireEscrow) w = w"
    by (simp add: exec_def expireEscrow_eq)
qed

text \<open>The sample agreement when the admin (address 3) rejects payments: the payment of 975
  to the seller goes through inside \<open>_releaseFunds\<close>, the payment to the admin fails, and
  the world is unchanged.\<close>

theorem failed_transfer_aborts_witness:
  "sender ((callBy 1 200)\<lparr>receives := {1, 2}\<rparr>) = buyer (escrow (sampleWorld False AWAITING_DELIVERY)) \<and>
   timestamp ((callBy 1 200)\<lparr>receives := {1, 2}\<rparr>)
     < expiryTime (escrow (sampleWorld False AWAITING_DELIVERY)) \<and>
   currentState (escrow (sampleWorld False AWAITING_DELIVERY)) = AWAITING_DELIVERY \<and>
   \<not> requireMultiSig (escrow (sampleWorld False AWAITING_DELIVERY)) \<and>
   adminFee (escrow (sampleWorld False AWAITING_DELIVERY))
     \<le> amount (escrow (sampleWorld False AWAITING_DELIVERY)) \<and>
   releaseBlocked ((callBy 1 200)\<lparr>receives := {1, 2}\<rparr>) (sampleWorld False AWAITING_DELIVERY) \<and>
   transfer ((callBy 1 200)\<lparr>receives := {1, 2}\<rparr>) 2 975
       (setState COMPLETE (sampleWorld False AWAITING_DELIVERY))
     = Inr ((setState COMPLETE (sampleWorld False AWAITING_DELIVERY))
              \<lparr>balance := move (ledger0(4 := 1000)) 4 2 975\<rparr>) \<and>
   confirmDelivery ((callBy 1 200)\<lparr>receives := {1, 2}\<rparr>) (sampleWorld False AWAITING_DELIVERY)
     = Inl TransferFailed \<and>
   exec ((callBy 1 200)\<lparr>receives := {1, 2}\<rparr>, ConfirmDelivery)
       (sampleWorld False AWAITING_DELIVERY)
     = sampleWorld False AWAITING_DELIVERY"
proof -
  have h: "sender ((callBy 1 200)\<lparr>receives := {1, 2}\<rparr>)
       = buyer (escrow (sampleWorld False AWAITING_DELIVERY))"
    "timestamp ((callBy 1 200)\<lparr>receives := {1, 2}\<rparr>)
     < expiryTime (escrow (sampleWorld False AWAITING_DELIVERY))"
    "currentState (escrow (sampleWorld False AWAITING_DELIVERY)) = AWAITING_DELIVERY"
    "\<not> requireMultiSig (escrow (sampleWorld False AWAITING_DELIVERY))"
    "adminFee (escrow (sampleWorld False AWAITING_DELIVERY))
     \<le> amount (escrow (sampleWorld False AWAITING_DELIVERY))"
    "releaseBlocked ((callBy 1 200)\<lparr>receives := {1, 2}\<rparr>) (sampleWorld False AWAITING_DELIVERY)"
    by (simp_all add: sample_defs releaseBlocked_def)
  have t: "transfer ((callBy 1 200)\<lparr>receives := {1, 2}\<rparr>) 2 975
       (setState COMPLETE (sampleWorld False AWAITING_DELIVERY))
     = Inr ((setState COMPLETE (sampleWorld False AWAITING_DELIVERY))
              \<lparr>balance := move (ledger0(4 := 1000)) 4 2 975\<rparr>)"
    by (simp add: transfer_def setState_def sample_defs)
  from failed_transfer_aborts [of "(callBy 1 200)\<lparr>receives := {1, 2}\<rparr>"
      "sampleWorld False AWAITING_DELIVERY"] h t
  show ?thesis by blast
qed

subsection \<open>C5: dual approval\<close>





subsection \<open>Creation and custody\<close>

lemma createEscrow_Inr:
  assumes "createEscrow ev v newAddr s d m (f, bal) = Inr (f', w)"
  shows "0 < v" and "uint v \<le> bal (sender ev)"
    and "Escrow_constructor ev v (sender ev) s (factoryAdmin f) d m (adminFeePercentage f)
           = Inr (escrow w)"
    and "thisAddr w = newAddr" and "balance w = move bal (sender ev) newAddr (uint v)"
    and "f' = f\<lparr>allEscrows := allEscrows f @ [newAddr]\<rparr>"
  using assms
  by (auto simp: createEscrow_def Let_def require_def split: if_splits sum.splits)

lemma fee_le_amount:
  assumes "unat fee = unat v * unat p div 10000" and "p \<le> (10000 :: uint256)"
  shows "fee \<le> (v :: uint256)"
proof -
  from assms(2) have "unat p \<le> 10000" by (simp add: word_le_nat_alt)
  then have "unat v * unat p \<le> unat v * 10000" by simp
  then have "unat v * unat p div 10000 \<le> unat v * 10000 div 10000"
    by (rule div_le_mono)
  with assms(1) show ?thesis by (simp add: word_le_nat_alt)
qed

text \<open>Creation moves the deposit, so it keeps the sum of the ledger. Deployed at an address
  that held nothing, the escrow holds exactly the deposit, and it still does after any
  history that leaves the agreement open.\<close>

lemma createEscrow_sum:
  "createEscrow ev v newAddr s d m (f, bal) = Inr (f', w) \<Longrightarrow>
     ledger_sum (balance w) = ledger_sum bal"
  by (drule createEscrow_Inr(5)) (simp add: ledger_sum_move)

lemma createEscrow_custody:
  assumes "createEscrow ev v newAddr s d m (f, bal) = Inr (f', w)"
    and "bal newAddr = 0" and "newAddr \<noteq> sender ev"
  shows "custody w"
proof -
  have "amount (escrow w) = v"
    using createEscrow_Inr(3) [OF assms(1)] by (rule constructor_Inr)
  then show ?thesis
    using createEscrow_Inr(4,5) [OF assms(1)] assms(2,3)
    by (simp add: custody_def move_def Let_def)
qed

lemma open_step_keeps_balance:
  assumes "body c ev w = Inr w'" and "\<not> terminal (currentState (escrow w'))"
  shows "balance w' = balance w"
  using assms
  by (cases c) (auto simp: body_eqs terminal_def released_simps refunded_simps setState_def
      split: if_splits)

lemma custody_run:
  "custody w \<Longrightarrow> \<not> terminal (currentState (escrow (run w txs))) \<Longrightarrow> custody (run w txs)"
proof (induction txs arbitrary: w)
  case Nil
  then show ?case by simp
next
  case (Cons tx txs)
  show ?case
  proof (cases "body (snd tx) (fst tx) w")
    case (Inl x)
    then have "exec tx w = w" by (simp add: exec_def)
    with Cons show ?thesis by simp
  next
    case (Inr w')
    then have e: "exec tx w = w'" by (simp add: exec_def)
    have nt: "\<not> terminal (currentState (escrow w'))"
    proof
      assume "terminal (currentState (escrow w'))"
      then have "run w' txs = w'" by (rule terminal_run)
      with Cons.prems(2) e \<open>terminal (currentState (escrow w'))\<close> show False by simp
    qed
    have "step_ok w w'" using Inr by (rule body_step_ok)
    moreover have "balance w' = balance w" using Inr nt by (rule open_step_keeps_balance)
    ultimately have "custody w'"
      using Cons.prems(1) by (simp add: custody_def step_ok_def sameTerms_def)
    then have "custody (run w' txs)"
      using Cons.prems(2) e by (intro Cons.IH) simp_all
    with e show ?thesis by simp
  qed
qed

subsection \<open>C6: calls after expiry\<close>

text \<open>
  C6, as the code has it. At or after \<open>expiryTime\<close>, each of \<open>confirmDelivery\<close>,
  \<open>confirmPayment\<close>, \<open>requestRefund\<close> and \<open>raiseDispute\<close>, called by the buyer or the
  seller, reverts with \<open>Escrow expired\<close> and changes neither the agreement nor a balance,
  in every state. (\<open>onlyParties\<close> runs before \<open>notExpired\<close>: any other caller gets
  \<open>Not a party\<close>.) \<open>adminResolution\<close> carries no \<open>notExpired\<close> modifier: its result
  does not depend on the time of the call.
\<close>

theorem expired_party_calls_revert:
  "(expiryTime (escrow w) \<le> timestamp ev \<and>
    (sender ev = buyer (escrow w) \<or> sender ev = seller (escrow w)) \<and>
    c \<in> {ConfirmDelivery, ConfirmPayment, RequestRefund, RaiseDispute} \<longrightarrow>
      body c ev w = Inl (Revert ''Escrow expired'') \<and> exec (ev, c) w = w) \<and>
   adminResolution b (ev\<lparr>timestamp := t\<rparr>) w = adminResolution b ev w"
proof (intro conjI impI)
  assume a: "expiryTime (escrow w) \<le> timestamp ev \<and>
    (sender ev = buyer (escrow w) \<or> sender ev = seller (escrow w)) \<and>
    c \<in> {ConfirmDelivery, ConfirmPayment, RequestRefund, RaiseDispute}"
  then have late: "\<not> timestamp ev < expiryTime (escrow w)" by auto
  from a late show r: "body c ev w = Inl (Revert ''Escrow expired'')"
    by (auto simp: body_eqs)
  then show "exec (ev, c) w = w" by (simp add: exec_def)
next
  show "adminResolution b (ev\<lparr>timestamp := t\<rparr>) w = adminResolution b ev w"
    by (simp add: adminResolution_eq releaseBlocked_def refundBlocked_def)
qed

text \<open>The buyer of the sample agreement asks for a refund at 90000, after the expiry at
  86500.\<close>

theorem expired_party_calls_revert_witness:
  "expiryTime (escrow (sampleWorld False AWAITING_DELIVERY)) \<le> timestamp (callBy 1 90000) \<and>
   sender (callBy 1 90000) = buyer (escrow (sampleWorld False AWAITING_DELIVERY)) \<and>
   body RequestRefund (callBy 1 90000) (sampleWorld False AWAITING_DELIVERY)
     = Inl (Revert ''Escrow expired'') \<and>
   exec (callBy 1 90000, RequestRefund) (sampleWorld False AWAITING_DELIVERY)
     = sampleWorld False AWAITING_DELIVERY"
proof -
  have h: "expiryTime (escrow (sampleWorld False AWAITING_DELIVERY)) \<le> timestamp (callBy 1 90000)"
    "sender (callBy 1 90000) = buyer (escrow (sampleWorld False AWAITING_DELIVERY))"
    by (simp_all add: sample_defs)
  from expired_party_calls_revert [of "sampleWorld False AWAITING_DELIVERY" "callBy 1 90000"
      RequestRefund] h
  show ?thesis by blast
qed

text \<open>C6 as stated fails: on the disputed sample agreement the admin resolves in favour of
  the seller at 90000, after the expiry at 86500; the call succeeds, the agreement becomes
  \<open>COMPLETE\<close> and the seller (address 2) holds 975.\<close>

theorem admin_after_expiry_counterexample:
  "expiryTime (escrow (sampleWorld False DISPUTED)) \<le> timestamp (callBy 3 90000) \<and>
   currentState (escrow (sampleWorld False DISPUTED)) = DISPUTED \<and>
   adminResolution True (callBy 3 90000) (sampleWorld False DISPUTED)
     = Inr (released (sampleWorld False DISPUTED)) \<and>
   adminResolution True (callBy 3 90000) (sampleWorld False DISPUTED)
     \<noteq> Inl (Revert ''Escrow expired'') \<and>
   currentState (escrow (exec (callBy 3 90000, AdminResolution True) (sampleWorld False DISPUTED)))
     = COMPLETE \<and>
   balance (exec (callBy 3 90000, AdminResolution True) (sampleWorld False DISPUTED)) 2 = 975"
  by (simp add: sample_defs eval_defs)

subsection \<open>C7: the expiry fallback\<close>

text \<open>
  C7, as the code has it. For an agreement in \<open>AWAITING_DELIVERY\<close>, \<open>expireEscrow\<close> at
  or after \<open>expiryTime\<close> (by any caller), when the buyer takes the payment, returns the
  agreement in \<open>REFUNDED\<close> with the whole balance of the escrow moved to the buyer; when
  the escrow holds exactly the deposit (\<open>custody\<close>, see \<open>createEscrow_custody\<close> and
  \<open>custody_run\<close>) the escrow is left with 0 and the buyer has \<open>amount\<close> more.
  When the buyer does not take the payment the call reverts with \<open>TransferFailed\<close> and
  changes nothing. Strictly before \<open>expiryTime\<close>, in any state, the call reverts with
  \<open>Not expired yet\<close> and changes nothing.
\<close>

theorem expiry_fallback:
  "(currentState (escrow w) = AWAITING_DELIVERY \<and> expiryTime (escrow w) \<le> timestamp ev \<and>
    \<not> refundBlocked ev w \<longrightarrow>
      expireEscrow ev w = Inr (refunded REFUNDED w) \<and>
      exec (ev, ExpireEscrow) w = refunded REFUNDED w \<and>
      currentState (escrow (refunded REFUNDED w)) = REFUNDED \<and>
      balance (refunded REFUNDED w) =
        move (balance w) (thisAddr w) (buyer (escrow w)) (balance w (thisAddr w)) \<and>
      (custody w \<longrightarrow>
         balance (refunded REFUNDED w) (thisAddr w) = 0 \<and>
         balance (refunded REFUNDED w) (buyer (escrow w)) =
           balance w (buyer (escrow w)) + uint (amount (escrow w)))) \<and>
   (timestamp ev < expiryTime (escrow w) \<longrightarrow>
      expireEscrow ev w = Inl (Revert ''Not expired yet'') \<and>
      exec (ev, ExpireEscrow) w = w) \<and>
   (currentState (escrow w) = AWAITING_DELIVERY \<and> expiryTime (escrow w) \<le> timestamp ev \<and>
    refundBlocked ev w \<longrightarrow>
      expireEscrow ev w = Inl TransferFailed \<and> exec (ev, ExpireEscrow) w = w)"
  by (auto simp: expireEscrow_eq exec_def refunded_simps custody_def move_def Let_def
        refundBlocked_def)

text \<open>The sample agreement expires at 86500: a stranger (address 7) calls at 86500 and at
  86499.\<close>

theorem expiry_fallback_witness:
  "currentState (escrow (sampleWorld False AWAITING_DELIVERY)) = AWAITING_DELIVERY \<and>
   expiryTime (escrow (sampleWorld False AWAITING_DELIVERY)) \<le> timestamp (callBy 7 86500) \<and>
   \<not> refundBlocked (callBy 7 86500) (sampleWorld False AWAITING_DELIVERY) \<and>
   custody (sampleWorld False AWAITING_DELIVERY) \<and>
   timestamp (callBy 7 86499) < expiryTime (escrow (sampleWorld False AWAITING_DELIVERY)) \<and>
   expireEscrow (callBy 7 86500) (sampleWorld False AWAITING_DELIVERY)
     = Inr (refunded REFUNDED (sampleWorld False AWAITING_DELIVERY)) \<and>
   balance (refunded REFUNDED (sampleWorld False AWAITING_DELIVERY))
       (buyer (escrow (sampleWorld False AWAITING_DELIVERY)))
     = balance (sampleWorld False AWAITING_DELIVERY)
         (buyer (escrow (sampleWorld False AWAITING_DELIVERY)))
       + uint (amount (escrow (sampleWorld False AWAITING_DELIVERY))) \<and>
   balance (refunded REFUNDED (sampleWorld False AWAITING_DELIVERY))
       (thisAddr (sampleWorld False AWAITING_DELIVERY)) = 0 \<and>
   expireEscrow (callBy 7 86499) (sampleWorld False AWAITING_DELIVERY)
     = Inl (Revert ''Not expired yet'')"
proof -
  have h: "currentState (escrow (sampleWorld False AWAITING_DELIVERY)) = AWAITING_DELIVERY"
    "expiryTime (escrow (sampleWorld False AWAITING_DELIVERY)) \<le> timestamp (callBy 7 86500)"
    "\<not> refundBlocked (callBy 7 86500) (sampleWorld False AWAITING_DELIVERY)"
    "custody (sampleWorld False AWAITING_DELIVERY)"
    "timestamp (callBy 7 86499) < expiryTime (escrow (sampleWorld False AWAITING_DELIVERY))"
    by (simp_all add: sample_defs refundBlocked_def custody_def)
  from expiry_fallback [of "sampleWorld False AWAITING_DELIVERY" "callBy 7 86500"]
    expiry_fallback [of "sampleWorld False AWAITING_DELIVERY" "callBy 7 86499"] h
  show ?thesis by blast
qed

text \<open>C7 as stated fails twice. When the buyer (address 1) rejects payments,
  \<open>expireEscrow\<close> on the sample agreement at its expiry time 86500 returns
  \<open>TransferFailed\<close> and the state is still \<open>AWAITING_DELIVERY\<close>. And when the escrow holds
  1500 for a deposit of 1000, the buyer receives 1500, not the deposited amount.\<close>

theorem expiry_refund_counterexample:
  "currentState (escrow (sampleWorld False AWAITING_DELIVERY)) = AWAITING_DELIVERY \<and>
   expiryTime (escrow (sampleWorld False AWAITING_DELIVERY))
     \<le> timestamp ((callBy 7 86500)\<lparr>receives := {2, 3}\<rparr>) \<and>
   expireEscrow ((callBy 7 86500)\<lparr>receives := {2, 3}\<rparr>) (sampleWorld False AWAITING_DELIVERY)
     = Inl TransferFailed \<and>
   currentState (escrow
     (exec ((callBy 7 86500)\<lparr>receives := {2, 3}\<rparr>, ExpireEscrow)
        (sampleWorld False AWAITING_DELIVERY))) = AWAITING_DELIVERY \<and>
   balance
     (exec ((callBy 7 86500)\<lparr>receives := {2, 3}\<rparr>, ExpireEscrow)
        (sampleWorld False AWAITING_DELIVERY)) 1 = 0 \<and>
   uint (amount (escrow ((sampleWorld False AWAITING_DELIVERY)\<lparr>balance := ledger0(4 := 1500)\<rparr>)))
     = 1000 \<and>
   currentState (escrow
     (exec (callBy 7 86500, ExpireEscrow)
        ((sampleWorld False AWAITING_DELIVERY)\<lparr>balance := ledger0(4 := 1500)\<rparr>))) = REFUNDED \<and>
   balance
     (exec (callBy 7 86500, ExpireEscrow)
        ((sampleWorld False AWAITING_DELIVERY)\<lparr>balance := ledger0(4 := 1500)\<rparr>)) 1 = 1500"
  by (simp add: sample_defs eval_defs)

subsection \<open>C8: the bound on the fee\<close>

text \<open>What holds of C8: \<open>setFeePercentage\<close> reverts with \<open>Only admin\<close> for any other
  caller (also when the value is too large: this check comes first), with \<open>Max 5% fee\<close>
  for the admin and a value above 500, and otherwise stores the value. Neither
  \<open>changeAdmin\<close> nor \<open>createEscrow\<close> changes the fee of the factory, and no function of
  the factory reaches the storage of an escrow, whose \<open>adminFee\<close> no transaction changes
  (\<open>run_step_ok\<close>).\<close>

lemma setFeePercentage_eq:
  "setFeePercentage ev n f =
     (if sender ev \<noteq> factoryAdmin f then Inl (Revert ''Only admin'')
      else if 500 < n then Inl (Revert ''Max 5% fee'')
      else Inr (f\<lparr>adminFeePercentage := n\<rparr>))"
  by (auto simp: setFeePercentage_def require_def)

lemma setFeePercentage_bound:
  "setFeePercentage ev n f = Inr f' \<Longrightarrow> adminFeePercentage f' \<le> 500"
  by (auto simp: setFeePercentage_eq split: if_splits)

lemma changeAdmin_keeps_fee:
  "changeAdmin ev a f = Inr f' \<Longrightarrow> adminFeePercentage f' = adminFeePercentage f"
  by (auto simp: changeAdmin_def require_def split: if_splits)

lemma createEscrow_keeps_fee:
  "createEscrow ev v newAddr s d m (f, bal) = Inr (f', w) \<Longrightarrow>
     adminFeePercentage f' = adminFeePercentage f"
  by (drule createEscrow_Inr(6)) simp

text \<open>
  C8 fails on the code at initialization: the constructor of \<open>EscrowFactory\<close> stores any
  fee. With 501 the fee of the factory exceeds 500, a value that \<open>setFeePercentage\<close>
  rejects. With 20000 an agreement over 1000 is created with \<open>adminFee\<close> 2000, more than
  its \<open>amount\<close>.
\<close>

theorem unbounded_initial_fee:
  "adminFeePercentage (EscrowFactory_constructor (callBy 3 0) 501) = 501 \<and>
   \<not> adminFeePercentage (EscrowFactory_constructor (callBy 3 0) 501) \<le> 500 \<and>
   setFeePercentage (callBy 3 10) 501 (EscrowFactory_constructor (callBy 3 0) 250)
     = Inl (Revert ''Max 5% fee'') \<and>
   createEscrow (callBy 1 100) 1000 4 2 1 False
       (EscrowFactory_constructor (callBy 3 0) 20000, ledger0(1 := 1000))
     = Inr ((EscrowFactory_constructor (callBy 3 0) 20000)\<lparr>allEscrows := [4]\<rparr>,
            \<lparr>thisAddr = 4, escrow = (sampleEscrow False AWAITING_DELIVERY)\<lparr>adminFee := 2000\<rparr>,
             balance = move (ledger0(1 := 1000)) 1 4 1000\<rparr>)"
  by (simp add: EscrowFactory_constructor_def setFeePercentage_def createEscrow_def
        Escrow_constructor_def checked_mul_def checked_add_def require_def sample_defs)

subsection \<open>C9: the terms of an agreement\<close>

text \<open>
  C9, as the code has it. Every agreement that \<open>createEscrow\<close> returns has
  \<open>0 < amount\<close> (the deposit), and \<open>expiryTime\<close> at or after the time of creation:
  strictly after when \<open>expiryDays\<close> is positive. Its \<open>adminFee\<close> is at most \<open>amount\<close>
  when the fee of the factory is at most 10000 basis points. No transaction changes
  \<open>amount\<close>, \<open>adminFee\<close> or \<open>expiryTime\<close>, so this holds for the whole lifetime.
  \<open>createEscrow\<close> with a deposit of zero fails, with \<open>Must send ETH to create escrow\<close>.
\<close>

theorem agreement_terms:
  "(createEscrow ev v newAddr s d m (f, bal) = Inr (f', w) \<longrightarrow>
      0 < amount (escrow w) \<and> amount (escrow w) = v \<and>
      timestamp ev \<le> expiryTime (escrow w) \<and>
      (0 < d \<longrightarrow> timestamp ev < expiryTime (escrow w)) \<and>
      (adminFeePercentage f \<le> 10000 \<longrightarrow> adminFee (escrow w) \<le> amount (escrow w)) \<and>
      amount (escrow (run w txs)) = amount (escrow w) \<and>
      adminFee (escrow (run w txs)) = adminFee (escrow w) \<and>
      expiryTime (escrow (run w txs)) = expiryTime (escrow w)) \<and>
   (\<exists>x. createEscrow ev 0 newAddr s d m (f, bal) = Inl x) \<and>
   (0 \<le> bal (sender ev) \<longrightarrow>
      createEscrow ev 0 newAddr s d m (f, bal) = Inl (Revert ''Must send ETH to create escrow''))"
proof (intro conjI impI)
  assume a: "createEscrow ev v newAddr s d m (f, bal) = Inr (f', w)"
  note c = createEscrow_Inr(3) [OF a]
  have am: "amount (escrow w) = v" using c by (rule constructor_Inr)
  have fee: "unat (adminFee (escrow w)) = unat v * unat (adminFeePercentage f) div 10000"
    using c by (rule constructor_Inr)
  have ex: "unat (expiryTime (escrow w)) = unat (timestamp ev) + unat d * 86400"
    using c by (rule constructor_Inr)
  show "amount (escrow w) = v" by (rule am)
  show "0 < amount (escrow w)" using createEscrow_Inr(1) [OF a] am by simp
  show "timestamp ev \<le> expiryTime (escrow w)" using ex by (simp add: word_le_nat_alt)
  show "timestamp ev < expiryTime (escrow w)" if "0 < d"
  proof -
    from that have "0 < unat d" by (simp add: word_less_nat_alt)
    with ex show ?thesis by (simp add: word_less_nat_alt)
  qed
  show "adminFee (escrow w) \<le> amount (escrow w)" if "adminFeePercentage f \<le> 10000"
    using fee that unfolding am by (rule fee_le_amount)
  have "step_ok w (run w txs)" by (rule run_step_ok)
  then show "amount (escrow (run w txs)) = amount (escrow w)"
    and "adminFee (escrow (run w txs)) = adminFee (escrow w)"
    and "expiryTime (escrow (run w txs)) = expiryTime (escrow w)"
    by (simp_all add: step_ok_def sameTerms_def)
next
  show "\<exists>x. createEscrow ev 0 newAddr s d m (f, bal) = Inl x"
    by (simp add: createEscrow_def require_def)
  show "createEscrow ev 0 newAddr s d m (f, bal) = Inl (Revert ''Must send ETH to create escrow'')"
    if "0 \<le> bal (sender ev)"
    using that by (simp add: createEscrow_def require_def)
qed

text \<open>The sample agreement, created by the buyer at time 100 for one day.\<close>

theorem agreement_terms_witness:
  "createEscrow (callBy 1 100) 1000 4 2 1 False (sampleFactory, ledger0(1 := 1000))
     = Inr (sampleFactory\<lparr>allEscrows := [4]\<rparr>,
            \<lparr>thisAddr = 4, escrow = sampleEscrow False AWAITING_DELIVERY,
             balance = move (ledger0(1 := 1000)) 1 4 1000\<rparr>) \<and>
   adminFeePercentage sampleFactory \<le> 10000 \<and> (0 :: uint256) < 1 \<and>
   timestamp (callBy 1 100) < expiryTime (sampleEscrow False AWAITING_DELIVERY) \<and>
   adminFee (sampleEscrow False AWAITING_DELIVERY) \<le> amount (sampleEscrow False AWAITING_DELIVERY) \<and>
   0 < amount (sampleEscrow False AWAITING_DELIVERY)"
proof -
  have c: "createEscrow (callBy 1 100) 1000 4 2 1 False (sampleFactory, ledger0(1 := 1000))
     = Inr (sampleFactory\<lparr>allEscrows := [4]\<rparr>,
            \<lparr>thisAddr = 4, escrow = sampleEscrow False AWAITING_DELIVERY,
             balance = move (ledger0(1 := 1000)) 1 4 1000\<rparr>)"
    by (simp add: createEscrow_def Escrow_constructor_def checked_mul_def checked_add_def
          require_def sample_defs)
  have h: "adminFeePercentage sampleFactory \<le> 10000" "(0 :: uint256) < 1"
    by (simp_all add: sample_defs)
  from agreement_terms [where ev = "callBy 1 100" and v = 1000 and newAddr = 4 and s = 2
      and d = 1 and m = False and f = sampleFactory and bal = "ledger0(1 := 1000)"
      and f' = "sampleFactory\<lparr>allEscrows := [4]\<rparr>" and txs = "[]"
      and w = "\<lparr>thisAddr = 4, escrow = sampleEscrow False AWAITING_DELIVERY,
             balance = move (ledger0(1 := 1000)) 1 4 1000\<rparr>"] c h
  show ?thesis by auto
qed

text \<open>C9 as stated fails: with \<open>expiryDays = 0\<close> the agreement is created and its
  \<open>expiryTime\<close> equals the time of creation.\<close>

theorem zero_duration_counterexample:
  "createEscrow (callBy 1 100) 1000 4 2 0 False (sampleFactory, ledger0(1 := 1000))
     = Inr (sampleFactory\<lparr>allEscrows := [4]\<rparr>,
            \<lparr>thisAddr = 4, escrow = (sampleEscrow False AWAITING_DELIVERY)\<lparr>expiryTime := 100\<rparr>,
             balance = move (ledger0(1 := 1000)) 1 4 1000\<rparr>) \<and>
   expiryTime ((sampleEscrow False AWAITING_DELIVERY)\<lparr>expiryTime := 100\<rparr>)
     = timestamp (callBy 1 100) \<and>
   \<not> timestamp (callBy 1 100)
       < expiryTime ((sampleEscrow False AWAITING_DELIVERY)\<lparr>expiryTime := 100\<rparr>)"
  by (simp add: createEscrow_def Escrow_constructor_def checked_mul_def checked_add_def
        require_def sample_defs)

subsection \<open>C10: \<open>confirmPayment\<close> on a single-approval agreement\<close>

text \<open>
  C10. On an agreement without dual approval, in \<open>AWAITING_DELIVERY\<close> and before expiry,
  \<open>confirmPayment\<close> called by the seller returns without an error and returns the world
  it was given: same state, same flags, same balances.
\<close>

theorem confirmPayment_single_approval:
  "\<not> requireMultiSig (escrow w) \<and> currentState (escrow w) = AWAITING_DELIVERY \<and>
   sender ev = seller (escrow w) \<and> timestamp ev < expiryTime (escrow w) \<longrightarrow>
     confirmPayment ev w = Inr w \<and> exec (ev, ConfirmPayment) w = w"
  by (simp add: confirmPayment_eq exec_def)

text \<open>The seller of the sample agreement calls \<open>confirmPayment\<close> at 200.\<close>

theorem confirmPayment_single_approval_witness:
  "\<not> requireMultiSig (escrow (sampleWorld False AWAITING_DELIVERY)) \<and>
   currentState (escrow (sampleWorld False AWAITING_DELIVERY)) = AWAITING_DELIVERY \<and>
   sender (callBy 2 200) = seller (escrow (sampleWorld False AWAITING_DELIVERY)) \<and>
   timestamp (callBy 2 200) < expiryTime (escrow (sampleWorld False AWAITING_DELIVERY)) \<and>
   confirmPayment (callBy 2 200) (sampleWorld False AWAITING_DELIVERY)
     = Inr (sampleWorld False AWAITING_DELIVERY)"
proof -
  have h: "\<not> requireMultiSig (escrow (sampleWorld False AWAITING_DELIVERY))"
    "currentState (escrow (sampleWorld False AWAITING_DELIVERY)) = AWAITING_DELIVERY"
    "sender (callBy 2 200) = seller (escrow (sampleWorld False AWAITING_DELIVERY))"
    "timestamp (callBy 2 200) < expiryTime (escrow (sampleWorld False AWAITING_DELIVERY))"
    by (simp_all add: sample_defs)
  from confirmPayment_single_approval [of "sampleWorld False AWAITING_DELIVERY" "callBy 2 200"] h
  show ?thesis by blast
qed

end
